theory Spec2Isabelle
  imports Main "HOL-Library.Word"
begin

section \<open>Bytes, file-like objects and address spaces\<close>

text \<open>
  The plugin file \<^verbatim>\<open>volatility/plugins/windows/procdump.py\<close> reads a PE image out of an
  address space and writes it to a file-like object. Python integers are unbounded and
  are modelled as \<open>int\<close>; a Python byte string is a list of bytes.
\<close>

type_synonym byte = "8 word"

text \<open>
  A file-like object is known to the code only through \<^verbatim>\<open>seek\<close> and \<^verbatim>\<open>write\<close>. Its state is
  the sequence of calls it has received, in order, together with the name it was opened
  under (two objects with different names are different sinks).
\<close>

datatype fd_call = Seek int | Write "byte list"

record file_obj =
  fd_name :: string
  fd_calls :: "fd_call list"

definition fd_seek :: "file_obj \<Rightarrow> int \<Rightarrow> file_obj" where
  "fd_seek fd offset = fd\<lparr>fd_calls := fd_calls fd @ [Seek offset]\<rparr>"

definition fd_write :: "file_obj \<Rightarrow> byte list \<Rightarrow> file_obj" where
  "fd_write fd data = fd\<lparr>fd_calls := fd_calls fd @ [Write data]\<rparr>"

text \<open>\<^verbatim>\<open>open(filename, "w")\<close>: a fresh file that has received no call yet.\<close>

definition open_file :: "string \<Rightarrow> file_obj" where
  "open_file filename = \<lparr>fd_name = filename, fd_calls = []\<rparr>"

text \<open>
  What a regular (sparse) file holds after a sequence of calls: a write at a position
  beyond the end fills the gap with zero bytes, overlapping writes are last-write-wins.
  A seek to a negative offset is refused by a file, so there is no content then.
\<close>

definition write_at :: "byte list \<Rightarrow> nat \<Rightarrow> byte list \<Rightarrow> byte list" where
  "write_at old pos new =
     take pos old @ replicate (pos - length old) 0 @ new @ drop (pos + length new) old"

fun play :: "fd_call list \<Rightarrow> nat \<Rightarrow> byte list \<Rightarrow> byte list option" where
  "play [] pos content = Some content"
| "play (Seek offset # calls) pos content =
     (if offset < 0 then None else play calls (nat offset) content)"
| "play (Write data # calls) pos content =
     play calls (pos + length data) (write_at content pos data)"

definition file_content :: "file_obj \<Rightarrow> byte list option" where
  "file_content fd = play (fd_calls fd) 0 []"

definition bytes_written :: "fd_call list \<Rightarrow> nat" where
  "bytes_written calls = sum_list (map (\<lambda>c. case c of Seek _ \<Rightarrow> 0 | Write data \<Rightarrow> length data) calls)"

text \<open>
  An address space is an external object. The code uses its truth value
  (\<^verbatim>\<open>if not task_address_space\<close>), its zero-padding read \<^verbatim>\<open>zread\<close>, its plain \<^verbatim>\<open>read\<close>,
  \<^verbatim>\<open>is_valid_address\<close> and the translation \<^verbatim>\<open>vtop\<close>; each is a parameter here.
\<close>

record address_space =
  as_nonzero :: bool
  zread :: "int \<Rightarrow> int \<Rightarrow> byte list"
  read :: "int \<Rightarrow> int \<Rightarrow> byte list"
  is_valid_address :: "int \<Rightarrow> bool"
  vtop :: "int \<Rightarrow> int option"

section \<open>Decoded header objects\<close>

text \<open>
  The profile (\<^verbatim>\<open>pe_vtypes\<close>) decodes typed objects from an address space. Every object
  knows its offset and its address space; a field object also has an integer value, a
  size in bytes and a \<^verbatim>\<open>struct\<close> format string. The decoder is not part of the
  plugin file: the objects it returns are parameters.

  A format string for one integer is a byte order, a signedness and a width in bytes:
  \<^verbatim>\<open>"<I"\<close> is little-endian, unsigned, 4 bytes.
\<close>

datatype byte_order = Little_endian | Big_endian

datatype format = Format (fmt_order: byte_order) (fmt_signed: bool) (fmt_width: nat)

record base_object =
  obj_offset :: int
  obj_vm :: address_space

record native_type = base_object +
  val :: int
  item_size :: int
  format_string :: format

record section_header = base_object +
  VirtualAddress :: native_type
  SizeOfRawData :: native_type
  PointerToRawData :: native_type
  Misc_VirtualSize :: native_type

record optional_header = base_object +
  SizeOfHeaders :: int
  SectionAlignment :: int
  SizeOfImage :: int

record file_header =
  SizeOfOptionalHeader :: int

record nt_header =
  FileHeader :: file_header
  OptionalHeader :: optional_header
  Sections :: "section_header list"
  get_sections :: "bool \<Rightarrow> section_header list"

record dos_header = base_object +
  NTHeader :: nt_header

record pe_profile =
  Object_IMAGE_DOS_HEADER :: "int \<Rightarrow> address_space \<Rightarrow> dos_header"
  get_obj_size_IMAGE_SECTION_HEADER :: int

section \<open>PEDump\<close>

text \<open>
  A \<^verbatim>\<open>PEDump\<close> object. The attributes \<^verbatim>\<open>out_fd\<close> and \<^verbatim>\<open>filename\<close> are set by the constructor
  only on some paths: \<open>None\<close> is an attribute that does not exist on the object.
\<close>

record PEDump =
  address_space :: "address_space option"
  image_base :: "int option"
  out_fd :: "file_obj option"
  filename :: "string option"
  pe_profile :: pe_profile

text \<open>
  The loop of \<^verbatim>\<open>WritePEFile\<close> over \<^verbatim>\<open>nt_header.Sections\<close>. The constants \<^verbatim>\<open>10e6\<close> and
  \<^verbatim>\<open>100e6\<close> are float literals with integral values; \<^verbatim>\<open>min\<close> compares numerically.
\<close>

fun write_sections :: "int \<Rightarrow> section_header list \<Rightarrow> file_obj \<Rightarrow> file_obj" where
  "write_sections base [] fd = fd"
| "write_sections base (section # rest) fd =
     (let size_of_section = min 10000000 (val (SizeOfRawData section));
          physical_offset = min 100000000 (val (PointerToRawData section));
          data = zread (obj_vm section) (val (VirtualAddress section) + base) size_of_section;
          fd = fd_seek fd physical_offset;
          fd = fd_write fd data
      in write_sections base rest fd)"

definition WritePEFile ::
  "PEDump \<Rightarrow> file_obj \<Rightarrow> address_space \<Rightarrow> int \<Rightarrow> file_obj" where
  "WritePEFile self fd addr_space img_base =
     (let dos_header = Object_IMAGE_DOS_HEADER (pe_profile self) img_base addr_space;
          base = obj_offset dos_header;
          nt_header = NTHeader dos_header;
          data = zread (obj_vm dos_header) base
                   (min 1000000 (SizeOfHeaders (OptionalHeader nt_header)))
      in if data = [] then fd
         else write_sections base (Sections nt_header) (fd_write (fd_seek fd 0) data))"


section \<open>Exceptions and text formatting\<close>

datatype error =
    AttributeError string
  | TypeError string
  | NameError string
  | PluginError string
  | StructError
  | IndexError

definition newline :: string where
  "newline = [CHR 0x0A]"

text \<open>Digits of a natural number in the base given by an alphabet of digit characters.\<close>

function digits_of :: "string \<Rightarrow> nat \<Rightarrow> string" where
  "digits_of alphabet n =
     (if length alphabet < 2 \<or> n < length alphabet then [alphabet ! n]
      else digits_of alphabet (n div length alphabet) @ [alphabet ! (n mod length alphabet)])"
  by pat_completeness auto
termination
  by (relation "measure snd") auto

declare digits_of.simps [simp del]

definition format_int :: "string \<Rightarrow> int \<Rightarrow> string" where
  "format_int alphabet i =
     (if i < 0 then CHR ''-'' # digits_of alphabet (nat (- i)) else digits_of alphabet (nat i))"

text \<open>\<^verbatim>\<open>str(i)\<close>, \<^verbatim>\<open>"{:x}"\<close> and \<^verbatim>\<open>"%X"\<close> of an integer; \<^verbatim>\<open>"{:6}"\<close> and \<^verbatim>\<open>"{:8x}"\<close> pad on the left.\<close>

definition str_int :: "int \<Rightarrow> string" where
  "str_int = format_int ''0123456789''"

definition hex_int :: "int \<Rightarrow> string" where
  "hex_int = format_int ''0123456789abcdef''"

definition HEX_int :: "int \<Rightarrow> string" where
  "HEX_int = format_int ''0123456789ABCDEF''"

definition rjust :: "nat \<Rightarrow> string \<Rightarrow> string" where
  "rjust w s = replicate (w - length s) CHR '' '' @ s"

text \<open>\<^verbatim>\<open>re.sub("[^a-zA-Z0-9-_]", "_", name)\<close>.\<close>

definition sanitized_char :: "char \<Rightarrow> char" where
  "sanitized_char c =
     (if c \<in> set ''abcdefghijklmnopqrstuvwxyzABCDEFGHIJKLMNOPQRSTUVWXYZ0123456789-_''
      then c else CHR ''_'')"

text \<open>\<^verbatim>\<open>os.path.join\<close> of two components (POSIX).\<close>

definition os_path_join :: "string \<Rightarrow> string \<Rightarrow> string" where
  "os_path_join a b =
     (if b \<noteq> [] \<and> hd b = CHR ''/'' then b
      else if a = [] \<or> last a = CHR ''/'' then a @ b
      else a @ ''/'' @ b)"

text \<open>Truth value of an optional string (\<open>None\<close> and the empty string are false).\<close>

definition truthy_str :: "string option \<Rightarrow> bool" where
  "truthy_str s = (case s of None \<Rightarrow> False | Some t \<Rightarrow> t \<noteq> [])"

text \<open>Truth value of a translated offset (\<open>None\<close> and \<open>0\<close> are false).\<close>

definition truthy_int :: "int option \<Rightarrow> bool" where
  "truthy_int x = (case x of None \<Rightarrow> False | Some v \<Rightarrow> v \<noteq> 0)"

subsection \<open>PEDump: constructor and render\<close>

text \<open>
  \<^verbatim>\<open>PEDump.__init__\<close>. A file object is always true, so \<^verbatim>\<open>if fd\<close> asks whether one was
  given; \<^verbatim>\<open>elif filename\<close> asks for a non-empty name. Neither branch has an \<^verbatim>\<open>else\<close>.
\<close>

definition PEDump_init ::
  "pe_profile \<Rightarrow> address_space option \<Rightarrow> int option \<Rightarrow> file_obj option \<Rightarrow> string option
     \<Rightarrow> PEDump" where
  "PEDump_init PEProfile addr_space img_base fd_arg filename_arg =
     (case fd_arg of
        Some f \<Rightarrow>
          \<lparr>address_space = addr_space, image_base = img_base,
           out_fd = Some f, filename = Some (''FD <'' @ fd_name f @ ''>''),
           pe_profile = PEProfile\<rparr>
      | None \<Rightarrow>
          if truthy_str filename_arg then
            \<lparr>address_space = addr_space, image_base = img_base,
             out_fd = map_option open_file filename_arg, filename = filename_arg,
             pe_profile = PEProfile\<rparr>
          else
            \<lparr>address_space = addr_space, image_base = img_base,
             out_fd = None, filename = None,
             pe_profile = PEProfile\<rparr>)"

text \<open>
  \<^verbatim>\<open>PEDump.render\<close>. The first statement formats \<^verbatim>\<open>self.image_base\<close> and \<^verbatim>\<open>self.filename\<close>:
  the attribute lookups come first, the formatting next, the write to \<^verbatim>\<open>outfd\<close> last.
  The result is the exception raised (if any), the object and what \<^verbatim>\<open>outfd\<close> holds.
\<close>

definition PEDump_render :: "PEDump \<Rightarrow> string list \<Rightarrow> error option \<times> PEDump \<times> string list" where
  "PEDump_render self out =
     (case filename self of
        None \<Rightarrow> (Some (AttributeError ''filename''), self, out)
      | Some name \<Rightarrow>
     (case image_base self of
        None \<Rightarrow> (Some (TypeError ''%X format: a number is required''), self, out)
      | Some base \<Rightarrow>
     (let out = out @ [''Dumping PE File at image_base 0x'' @ HEX_int base @ '' to '' @ name
                        @ newline]
      in case out_fd self of
        None \<Rightarrow> (Some (AttributeError ''out_fd''), self, out)
      | Some f \<Rightarrow>
     (case address_space self of
        None \<Rightarrow> (Some (AttributeError ''NoneType''), self, out)
      | Some addr_space \<Rightarrow>
          (None, self\<lparr>out_fd := Some (WritePEFile self f addr_space base)\<rparr>,
           out @ [''Done!'' @ newline])))))"


section \<open>The dumping plugins\<close>

text \<open>
  Process and module records come from the process enumeration, which is not part of
  the plugin file. \<^verbatim>\<open>get_process_address_space\<close> and \<^verbatim>\<open>get_load_modules\<close> are methods of a
  process record; what they return is a field here.
\<close>

record ldr_module =
  BaseDllName :: string
  DllBase :: int

record task = base_object +
  UniqueProcessId :: int
  ImageFileName :: string
  Peb_ImageBaseAddress :: int
  get_process_address_space :: address_space
  get_load_modules :: "ldr_module list"

text \<open>
  The operating system as the plugins see it: \<^verbatim>\<open>os.path.isdir\<close>, and the files created
  by \<^verbatim>\<open>open(..., "wb")\<close> in order of creation, each with the calls it received.
\<close>

record os_world =
  os_path_isdir :: "string \<Rightarrow> bool"
  os_files :: "file_obj list"

text \<open>
  \<^verbatim>\<open>ProcExeDump\<close>, with what \<^verbatim>\<open>filter_processes()\<close> (a method of the base class) yields.
  \<^verbatim>\<open>DLLDump\<close> adds the compiled pattern, as the predicate \<^verbatim>\<open>regex.search\<close> on names.
  \<^verbatim>\<open>ModDump\<close> adds the class attribute \<^verbatim>\<open>address_spaces\<close>; \<^verbatim>\<open>processes\<close>,
  \<^verbatim>\<open>kernel_address_space\<close> and the module list of the \<^verbatim>\<open>modules\<close> plugin (\<^verbatim>\<open>lsmod()\<close>) come
  from outside the plugin file.
\<close>

record ProcExeDump =
  dump_dir :: "string option"
  fd :: "file_obj option"
  pedump :: PEDump
  filter_processes :: "task list"

record DLLDump = ProcExeDump +
  regex :: "string \<Rightarrow> bool"

record ModDump = DLLDump +
  address_spaces :: "address_space list option"
  processes :: "task list option"
  kernel_address_space :: address_space
  lsmod :: "ldr_module list"

text \<open>\<^verbatim>\<open>ProcExeDump.__init__\<close>: \<^verbatim>\<open>self.dump_dir = dump_dir or self.session.dump_dir\<close>.\<close>

definition ProcExeDump_init ::
  "pe_profile \<Rightarrow> string option \<Rightarrow> task list \<Rightarrow> string option \<Rightarrow> file_obj option \<Rightarrow> ProcExeDump" where
  "ProcExeDump_init PEProfile session_dump_dir tasks dump_dir_arg outfd_arg =
     \<lparr>dump_dir = (if truthy_str dump_dir_arg then dump_dir_arg else session_dump_dir),
      fd = outfd_arg,
      pedump = PEDump_init PEProfile None None None None,
      filter_processes = tasks\<rparr>"

definition check_dump_dir ::
  "'a ProcExeDump_scheme \<Rightarrow> os_world \<Rightarrow> string option \<Rightarrow> error option" where
  "check_dump_dir self os dir =
     (case dir of
        None \<Rightarrow> Some (PluginError ''Please specify a dump directory.'')
      | Some d \<Rightarrow>
          if d = [] then Some (PluginError ''Please specify a dump directory.'')
          else if \<not> os_path_isdir os d then
            Some (PluginError ((case dump_dir self of None \<Rightarrow> ''None'' | Some s \<Rightarrow> s)
                               @ '' is not a directory''))
          else None)"

text \<open>
  The loop of \<^verbatim>\<open>ProcExeDump.render\<close> over \<^verbatim>\<open>self.filter_processes()\<close>. The result is the
  exception that ended the run (if any), the plugin object (its \<^verbatim>\<open>fd\<close> may have received
  calls), what \<^verbatim>\<open>outfd\<close> holds and the operating system.
\<close>

fun ProcExeDump_tasks ::
  "'a ProcExeDump_scheme \<Rightarrow> task list \<Rightarrow> string list \<Rightarrow> os_world
     \<Rightarrow> error option \<times> 'a ProcExeDump_scheme \<times> string list \<times> os_world" where
  "ProcExeDump_tasks self [] out os = (None, self, out, os)"
| "ProcExeDump_tasks self (task # rest) out os =
     (let pid = UniqueProcessId task;
          task_address_space = get_process_address_space task
      in if \<not> as_nonzero task_address_space then
           ProcExeDump_tasks self rest (out @ [''Can not get task address space - skipping.'']) os
         else case fd self of
           Some f \<Rightarrow>
             (let f = WritePEFile (pedump self) f task_address_space (Peb_ImageBaseAddress task);
                  out = out @ [replicate 72 CHR ''*'' @ newline];
                  out = out @ [''Dumping '' @ ImageFileName task @ '', pid: ''
                               @ rjust 6 (str_int pid) @ '' into user provided fd.'' @ newline]
              in ProcExeDump_tasks (self\<lparr>fd := Some f\<rparr>) rest out os)
         | None \<Rightarrow>
             (case check_dump_dir self os (dump_dir self) of
                Some e \<Rightarrow> (Some e, self, out, os)
              | None \<Rightarrow>
             (case dump_dir self of
                None \<Rightarrow> (Some (TypeError ''join''), self, out, os)
              | Some dir \<Rightarrow>
             (let sanitized_image_name = map sanitized_char (ImageFileName task);
                  file_name = os_path_join dir
                     (''executable.'' @ sanitized_image_name @ ''_'' @ str_int pid @ ''.exe'');
                  out = out @ [replicate 72 CHR ''*'' @ newline];
                  out = out @ [''Dumping '' @ ImageFileName task @ '', pid: ''
                               @ rjust 6 (str_int pid) @ '' output: '' @ file_name @ newline];
                  f = WritePEFile (pedump self) (open_file file_name) task_address_space
                        (Peb_ImageBaseAddress task)
              in ProcExeDump_tasks self rest out (os\<lparr>os_files := os_files os @ [f]\<rparr>)))))"

definition ProcExeDump_render ::
  "'a ProcExeDump_scheme \<Rightarrow> string list \<Rightarrow> os_world
     \<Rightarrow> error option \<times> 'a ProcExeDump_scheme \<times> string list \<times> os_world" where
  "ProcExeDump_render self out os = ProcExeDump_tasks self (filter_processes self) out os"

text \<open>
  The inner loop of \<^verbatim>\<open>DLLDump.render\<close> over the modules of one process. The branch taken
  when the process record does not translate formats \<^verbatim>\<open>proc.ImageFileName\<close>; no name
  \<^verbatim>\<open>proc\<close> is bound in the function or the module, so the lookup raises \<^verbatim>\<open>NameError\<close>
  before anything is written.
\<close>

fun DLLDump_modules ::
  "'a DLLDump_scheme \<Rightarrow> task \<Rightarrow> ldr_module list \<Rightarrow> string list \<Rightarrow> os_world
     \<Rightarrow> error option \<times> string list \<times> os_world" where
  "DLLDump_modules self task [] out os = (None, out, os)"
| "DLLDump_modules self task (module # rest) out os =
     (let task_as = get_process_address_space task;
          process_offset = vtop task_as (obj_offset task)
      in if truthy_int process_offset then
           if \<not> regex self (BaseDllName module) then DLLDump_modules self task rest out os
           else
             (case dump_dir self of
                None \<Rightarrow> (Some (TypeError ''join''), out, os)
              | Some dir \<Rightarrow>
             (let dump_file = ''module.'' @ str_int (UniqueProcessId task) @ ''.''
                     @ hex_int (case process_offset of None \<Rightarrow> 0 | Some v \<Rightarrow> v) @ ''.''
                     @ hex_int (DllBase module) @ ''.dll'';
                  out = out @ [''Dumping '' @ BaseDllName module @ '', Process: ''
                     @ ImageFileName task @ '', Base: '' @ rjust 8 (hex_int (DllBase module))
                     @ '' output: '' @ dump_file @ newline];
                  f = WritePEFile (pedump self) (open_file (os_path_join dir dump_file)) task_as
                        (DllBase module)
              in DLLDump_modules self task rest out (os\<lparr>os_files := os_files os @ [f]\<rparr>)))
         else (Some (NameError ''proc''), out, os))"

fun DLLDump_tasks ::
  "'a DLLDump_scheme \<Rightarrow> task list \<Rightarrow> string list \<Rightarrow> os_world
     \<Rightarrow> error option \<times> string list \<times> os_world" where
  "DLLDump_tasks self [] out os = (None, out, os)"
| "DLLDump_tasks self (task # rest) out os =
     (case DLLDump_modules self task (get_load_modules task) out os of
        (Some e, out, os) \<Rightarrow> (Some e, out, os)
      | (None, out, os) \<Rightarrow> DLLDump_tasks self rest out os)"

definition DLLDump_render ::
  "'a DLLDump_scheme \<Rightarrow> string list \<Rightarrow> os_world \<Rightarrow> error option \<times> string list \<times> os_world" where
  "DLLDump_render self out os =
     (case check_dump_dir self os (dump_dir self) of
        Some e \<Rightarrow> (Some e, out, os)
      | None \<Rightarrow> DLLDump_tasks self (filter_processes self) out os)"

subsection \<open>ModDump\<close>

text \<open>The two loops of \<^verbatim>\<open>find_space\<close>: appending the process address spaces, and the search.\<close>

fun append_spaces :: "address_space list \<Rightarrow> task list \<Rightarrow> address_space list" where
  "append_spaces spaces [] = spaces"
| "append_spaces spaces (task # rest) =
     append_spaces (spaces @ [get_process_address_space task]) rest"

fun search_spaces :: "address_space list \<Rightarrow> int \<Rightarrow> address_space option" where
  "search_spaces [] img_base = None"
| "search_spaces (addr_space # rest) img_base =
     (if is_valid_address addr_space img_base then Some addr_space
      else search_spaces rest img_base)"

text \<open>
  \<^verbatim>\<open>ModDump.find_space\<close>. The guard reads \<^verbatim>\<open>self.processes\<close>; the list is stored in
  \<^verbatim>\<open>self.address_spaces\<close>. Iterating over \<^verbatim>\<open>None\<close> raises \<^verbatim>\<open>TypeError\<close>. Falling off the end
  of the function returns \<^verbatim>\<open>None\<close>.
\<close>

definition find_space ::
  "'a ModDump_scheme \<Rightarrow> int \<Rightarrow> (error + address_space option) \<times> 'a ModDump_scheme" where
  "find_space self img_base =
     (let self =
        (if processes self = None then
           self\<lparr>address_spaces :=
                  Some (append_spaces [kernel_address_space self] (filter_processes self))\<rparr>
         else self)
      in case address_spaces self of
           None \<Rightarrow> (Inl (TypeError ''NoneType object is not iterable''), self)
         | Some spaces \<Rightarrow> (Inr (search_spaces spaces img_base), self))"

text \<open>The loop of \<^verbatim>\<open>ModDump.render\<close> over the kernel modules.\<close>

fun ModDump_modules ::
  "'a ModDump_scheme \<Rightarrow> ldr_module list \<Rightarrow> string list \<Rightarrow> os_world
     \<Rightarrow> error option \<times> 'a ModDump_scheme \<times> string list \<times> os_world" where
  "ModDump_modules self [] out os = (None, self, out, os)"
| "ModDump_modules self (module # rest) out os =
     (if regex self (BaseDllName module) then
        (case find_space self (DllBase module) of
           (Inl e, self) \<Rightarrow> (Some e, self, out, os)
         | (Inr None, self) \<Rightarrow> ModDump_modules self rest out os
         | (Inr (Some addr_space), self) \<Rightarrow>
             if as_nonzero addr_space then
               (case dump_dir self of
                  None \<Rightarrow> (Some (TypeError ''join''), self, out, os)
                | Some dir \<Rightarrow>
               (let dump_file = ''driver.'' @ hex_int (DllBase module) @ ''.sys'';
                    out = out @ [''Dumping '' @ BaseDllName module @ '', Base: ''
                       @ rjust 8 (hex_int (DllBase module)) @ '' output: '' @ dump_file @ newline];
                    f = WritePEFile (pedump self) (open_file (os_path_join dir dump_file))
                          addr_space (DllBase module)
                in ModDump_modules self rest out (os\<lparr>os_files := os_files os @ [f]\<rparr>)))
             else ModDump_modules self rest out os)
      else ModDump_modules self rest out os)"

definition ModDump_render ::
  "'a ModDump_scheme \<Rightarrow> string list \<Rightarrow> os_world
     \<Rightarrow> error option \<times> 'a ModDump_scheme \<times> string list \<times> os_world" where
  "ModDump_render self out os =
     (case check_dump_dir self os (dump_dir self) of
        Some e \<Rightarrow> (Some e, self, out, os)
      | None \<Rightarrow> ModDump_modules self (lsmod self) out os)"


section \<open>ProcMemDump: rewriting section headers\<close>

text \<open>
  \<^verbatim>\<open>struct.pack(fmt, v)\<close> for a format of one integer: the bytes of \<open>v\<close> in the format's
  width and byte order (two's complement when signed), or \<^verbatim>\<open>struct.error\<close> when \<open>v\<close> is out
  of the format's range.
\<close>

definition struct_pack :: "format \<Rightarrow> int \<Rightarrow> error + byte list" where
  "struct_pack f v =
     (let w = fmt_width f;
          lo = (if fmt_signed f then - (2 ^ (8 * w - 1)) else 0);
          hi = (if fmt_signed f then 2 ^ (8 * w - 1) else 2 ^ (8 * w));
          little = map (\<lambda>k. word_of_int (v div 256 ^ k)) [0..<w]
      in if lo \<le> v \<and> v < hi then
           Inr (case fmt_order f of Little_endian \<Rightarrow> little | Big_endian \<Rightarrow> rev little)
         else Inl StructError)"

text \<open>Python slices \<^verbatim>\<open>xs[:k]\<close> and \<^verbatim>\<open>xs[k:]\<close>; a negative \<open>k\<close> counts from the end.\<close>

definition slice_to :: "'a list \<Rightarrow> int \<Rightarrow> 'a list" where
  "slice_to xs k = (if 0 \<le> k then take (nat k) xs else take (nat (int (length xs) + k)) xs)"

definition slice_from :: "'a list \<Rightarrow> int \<Rightarrow> 'a list" where
  "slice_from xs k = (if 0 \<le> k then drop (nat k) xs else drop (nat (int (length xs) + k)) xs)"

definition replace_header_field ::
  "section_header \<Rightarrow> byte list \<Rightarrow> native_type \<Rightarrow> int \<Rightarrow> error + byte list" where
  "replace_header_field sect header item v =
     (let field_size = item_size item;
          start = obj_offset item - obj_offset sect;
          end_pos = start + field_size
      in case struct_pack (format_string item) v of
           Inl e \<Rightarrow> Inl e
         | Inr newval \<Rightarrow> Inr (slice_to header start @ newval @ slice_from header end_pos))"


text \<open>
  \<^verbatim>\<open>ProcMemDump\<close>. \<^verbatim>\<open>get_image\<close> uses \<^verbatim>\<open>self.get_nt_header\<close>, \<^verbatim>\<open>self.get_code\<close>, \<^verbatim>\<open>self.unsafe\<close>
  and \<^verbatim>\<open>self.pe_profile\<close>, none of which \<^verbatim>\<open>procdump.py\<close> defines: they are fields here.
\<close>

record ProcMemDump = ProcExeDump +
  unsafe :: bool
  memdump_profile :: pe_profile
  get_nt_header :: "address_space \<Rightarrow> int \<Rightarrow> nt_header"
  get_code :: "address_space \<Rightarrow> int \<Rightarrow> int \<Rightarrow> int \<Rightarrow> int \<times> byte list"





section \<open>The reconstruction as the specification words it\<close>

text \<open>
  The specification names the three clamped quantities \<open>headerLen\<close>, \<open>readLen\<close> and
  \<open>writeOffset\<close>, and for each section one seek to \<open>writeOffset\<close> followed by one write
  of the \<open>readLen\<close> bytes read at the section's virtual address. These definitions follow
  its words; the theorems below compare them with \<^const>\<open>WritePEFile\<close>.
\<close>

definition headerLen :: "nt_header \<Rightarrow> int" where
  "headerLen nt = min 1000000 (SizeOfHeaders (OptionalHeader nt))"

definition readLen :: "section_header \<Rightarrow> int" where
  "readLen s = min 10000000 (val (SizeOfRawData s))"

definition writeOffset :: "section_header \<Rightarrow> int" where
  "writeOffset s = min 100000000 (val (PointerToRawData s))"

definition section_calls :: "int \<Rightarrow> section_header \<Rightarrow> fd_call list" where
  "section_calls base s =
     [Seek (writeOffset s),
      Write (zread (obj_vm s) (val (VirtualAddress s) + base) (readLen s))]"

section \<open>Concrete inputs\<close>

text \<open>
  An address space whose reads are all zero-filled, and one whose reads return nothing.
\<close>

definition zero_fill_as :: address_space where
  "zero_fill_as =
     \<lparr>as_nonzero = True,
      zread = (\<lambda>addr n. replicate (nat n) 0),
      read = (\<lambda>addr n. replicate (nat n) 0),
      is_valid_address = (\<lambda>addr. False),
      vtop = (\<lambda>addr. None)\<rparr>"

definition unmapped_as :: address_space where
  "unmapped_as =
     \<lparr>as_nonzero = True,
      zread = (\<lambda>addr n. []),
      read = (\<lambda>addr n. []),
      is_valid_address = (\<lambda>addr. False),
      vtop = (\<lambda>addr. None)\<rparr>"

text \<open>
  A section header as the PE format lays it out (40 bytes; \<^verbatim>\<open>Misc.VirtualSize\<close> at 8,
  \<^verbatim>\<open>VirtualAddress\<close> at 12, \<^verbatim>\<open>SizeOfRawData\<close> at 16, \<^verbatim>\<open>PointerToRawData\<close> at 20, each an
  unsigned little-endian 32-bit field), and an image with two sections: an ordinary one
  and one whose declared sizes and file offset are \<open>2\<^sup>3\<^sup>2 - 1\<close>.
\<close>

definition dword :: "address_space \<Rightarrow> int \<Rightarrow> int \<Rightarrow> native_type" where
  "dword vm offset v =
     \<lparr>obj_offset = offset, obj_vm = vm, val = v, item_size = 4,
      format_string = Format Little_endian False 4\<rparr>"

definition demo_section ::
  "address_space \<Rightarrow> int \<Rightarrow> int \<Rightarrow> int \<Rightarrow> int \<Rightarrow> int \<Rightarrow> section_header" where
  "demo_section vm offset vsize va rawsize rawptr =
     \<lparr>obj_offset = offset, obj_vm = vm,
      VirtualAddress = dword vm (offset + 12) va,
      SizeOfRawData = dword vm (offset + 16) rawsize,
      PointerToRawData = dword vm (offset + 20) rawptr,
      Misc_VirtualSize = dword vm (offset + 8) vsize\<rparr>"

definition demo_sections :: "address_space \<Rightarrow> int \<Rightarrow> section_header list" where
  "demo_sections vm base =
     [demo_section vm (base + 376) 1400 4096 1536 1024,
      demo_section vm (base + 416) 4294967295 8192 4294967295 4294967295]"

definition demo_nt :: "address_space \<Rightarrow> int \<Rightarrow> int \<Rightarrow> nt_header" where
  "demo_nt vm base hsize =
     \<lparr>FileHeader = \<lparr>SizeOfOptionalHeader = 224\<rparr>,
      OptionalHeader = \<lparr>obj_offset = base + 152, obj_vm = vm, SizeOfHeaders = hsize,
                         SectionAlignment = 4096, SizeOfImage = 12288\<rparr>,
      Sections = demo_sections vm base,
      get_sections = (\<lambda>unsafe. demo_sections vm base)\<rparr>"

definition demo_profile :: "int \<Rightarrow> pe_profile" where
  "demo_profile hsize =
     \<lparr>Object_IMAGE_DOS_HEADER =
        (\<lambda>offset vm. \<lparr>obj_offset = offset, obj_vm = vm, NTHeader = demo_nt vm offset hsize\<rparr>),
      get_obj_size_IMAGE_SECTION_HEADER = 40\<rparr>"

definition demo_pedump :: "int \<Rightarrow> PEDump" where
  "demo_pedump hsize = PEDump_init (demo_profile hsize) None None None None"

text \<open>
  The process dump of the specification's scenario: an image at \<open>0x1000\<close> whose header
  declares \<open>SizeOfHeaders = 0x200\<close> and one section with \<open>VirtualAddress = 0x1000\<close>,
  \<open>SizeOfRawData = 0x600\<close> and \<open>PointerToRawData = 0x400\<close>, in an address space that
  reads \<open>0x4D\<close> in the header page and \<open>0xAA\<close> everywhere else.
\<close>

definition pattern_as :: address_space where
  "pattern_as =
     \<lparr>as_nonzero = True,
      zread = (\<lambda>addr n. replicate (nat n) (if addr < 8192 then 77 else 170)),
      read = (\<lambda>addr n. replicate (nat n) (if addr < 8192 then 77 else 170)),
      is_valid_address = (\<lambda>addr. True),
      vtop = (\<lambda>addr. Some addr)\<rparr>"

definition scenario_profile :: pe_profile where
  "scenario_profile =
     \<lparr>Object_IMAGE_DOS_HEADER =
        (\<lambda>offset vm.
           \<lparr>obj_offset = offset, obj_vm = vm,
            NTHeader =
              \<lparr>FileHeader = \<lparr>SizeOfOptionalHeader = 224\<rparr>,
               OptionalHeader = \<lparr>obj_offset = offset + 152, obj_vm = vm, SizeOfHeaders = 512,
                                  SectionAlignment = 4096, SizeOfImage = 8192\<rparr>,
               Sections = [demo_section vm (offset + 376) 1536 4096 1536 1024],
               get_sections = (\<lambda>unsafe. [demo_section vm (offset + 376) 1536 4096 1536 1024])\<rparr>\<rparr>),
      get_obj_size_IMAGE_SECTION_HEADER = 40\<rparr>"

text \<open>
  Three address spaces for the driver search: the kernel's and a first process's, in
  which the session-space address \<open>0xBF800000\<close> is not valid, and a second process's, in
  which it is.
\<close>

definition kernel_as :: address_space where
  "kernel_as =
     \<lparr>as_nonzero = True,
      zread = (\<lambda>addr n. replicate (nat n) 0),
      read = (\<lambda>addr n. replicate (nat n) 0),
      is_valid_address = (\<lambda>addr. 2147483648 \<le> addr \<and> addr < 3212836864),
      vtop = (\<lambda>addr. if 2147483648 \<le> addr \<and> addr < 3212836864 then Some (addr - 2147483648)
                      else None)\<rparr>"

definition system_as :: address_space where
  "system_as =
     \<lparr>as_nonzero = True,
      zread = (\<lambda>addr n. replicate (nat n) 0),
      read = (\<lambda>addr n. replicate (nat n) 0),
      is_valid_address = (\<lambda>addr. 65536 \<le> addr \<and> addr < 3212836864),
      vtop = (\<lambda>addr. if 65536 \<le> addr \<and> addr < 3212836864 then Some addr else None)\<rparr>"

definition gui_as :: address_space where
  "gui_as =
     \<lparr>as_nonzero = True,
      zread = (\<lambda>addr n. replicate (nat n) 0),
      read = (\<lambda>addr n. replicate (nat n) 0),
      is_valid_address = (\<lambda>addr. 65536 \<le> addr \<and> addr < 3221225472),
      vtop = (\<lambda>addr. if 65536 \<le> addr \<and> addr < 3221225472 then Some addr else None)\<rparr>"

definition demo_task :: "int \<Rightarrow> string \<Rightarrow> address_space \<Rightarrow> ldr_module list \<Rightarrow> task" where
  "demo_task pid name vm modules =
     \<lparr>obj_offset = 2164260864 + pid, obj_vm = kernel_as,
      UniqueProcessId = pid, ImageFileName = name, Peb_ImageBaseAddress = 4194304,
      get_process_address_space = vm, get_load_modules = modules\<rparr>"

definition demo_moddump :: "task list \<Rightarrow> ModDump" where
  "demo_moddump tasks =
     \<lparr>dump_dir = Some ''/dumps'', fd = None, pedump = demo_pedump 512,
      filter_processes = tasks, regex = (\<lambda>name. True),
      address_spaces = None, processes = None, kernel_address_space = kernel_as,
      lsmod = [\<lparr>BaseDllName = ''win32k.sys'', DllBase = 3212836864\<rparr>]\<rparr>"

text \<open>
  A file system in which \<^verbatim>\<open>/dumps\<close> is the only directory and no file has been created,
  and plugin objects over it. The pattern of the \<^verbatim>\<open>DLLDump\<close> object matches names that
  contain \<^verbatim>\<open>evil\<close>.
\<close>

definition demo_os :: os_world where
  "demo_os = \<lparr>os_path_isdir = (\<lambda>path. path = ''/dumps''), os_files = []\<rparr>"

definition demo_procexedump ::
  "string option \<Rightarrow> file_obj option \<Rightarrow> task list \<Rightarrow> ProcExeDump" where
  "demo_procexedump dir sink tasks =
     ProcExeDump_init (demo_profile 512) None tasks dir sink"

fun contains_evil :: "string \<Rightarrow> bool" where
  "contains_evil [] = False"
| "contains_evil (c # cs) = (take 4 (c # cs) = ''evil'' \<or> contains_evil cs)"

definition demo_dlldump :: "task list \<Rightarrow> DLLDump" where
  "demo_dlldump tasks =
     \<lparr>dump_dir = Some ''/dumps'', fd = None, pedump = demo_pedump 512,
      filter_processes = tasks, regex = contains_evil\<rparr>"

definition demo_modules :: "ldr_module list" where
  "demo_modules =
     [\<lparr>BaseDllName = ''kernel32.dll'', DllBase = 2088763392\<rparr>,
      \<lparr>BaseDllName = ''ntdll.dll'', DllBase = 2089811968\<rparr>,
      \<lparr>BaseDllName = ''evil.dll'', DllBase = 268435456\<rparr>]"

text \<open>
  An object that stands for an address space that could not be built: it is false, and
  nothing can be read or translated through it.
\<close>

definition none_as :: address_space where
  "none_as = unmapped_as\<lparr>as_nonzero := False\<rparr>"

section \<open>Names used in the statements about the module filter\<close>

text \<open>
  A process record translates when \<^verbatim>\<open>task_as.vtop(task.obj_offset)\<close> is true. The matching
  modules of a module list are those whose name the pattern accepts.
\<close>

definition translates :: "task \<Rightarrow> bool" where
  "translates t = truthy_int (vtop (get_process_address_space t) (obj_offset t))"

definition matching_modules :: "'a DLLDump_scheme \<Rightarrow> ldr_module list \<Rightarrow> ldr_module list" where
  "matching_modules self mods = filter (\<lambda>m. regex self (BaseDllName m)) mods"

text \<open>
  What the dump of one module consists of: the file name
  \<^verbatim>\<open>module.<pid>.<process offset>.<module base>.dll\<close>, the progress line that names the
  module, and the file with the module's image written into it.
\<close>

definition module_dump_file :: "task \<Rightarrow> ldr_module \<Rightarrow> string" where
  "module_dump_file t m =
     ''module.'' @ str_int (UniqueProcessId t) @ ''.''
       @ hex_int (case vtop (get_process_address_space t) (obj_offset t) of
                    None \<Rightarrow> 0 | Some v \<Rightarrow> v) @ ''.''
       @ hex_int (DllBase m) @ ''.dll''"

definition module_line :: "task \<Rightarrow> ldr_module \<Rightarrow> string" where
  "module_line t m =
     ''Dumping '' @ BaseDllName m @ '', Process: '' @ ImageFileName t @ '', Base: ''
       @ rjust 8 (hex_int (DllBase m)) @ '' output: '' @ module_dump_file t m @ newline"

definition module_file :: "'a DLLDump_scheme \<Rightarrow> string \<Rightarrow> task \<Rightarrow> ldr_module \<Rightarrow> file_obj" where
  "module_file self dir t m =
     WritePEFile (pedump self) (open_file (os_path_join dir (module_dump_file t m)))
       (get_process_address_space t) (DllBase m)"

text \<open>
  The dumps of the matching modules of the processes that translate, in enumeration
  order: for each the line and the file. No other module has an entry.
\<close>

definition matching_dumps ::
  "'a DLLDump_scheme \<Rightarrow> string \<Rightarrow> task list \<Rightarrow> (string \<times> file_obj) list" where
  "matching_dumps self dir tasks =
     concat (map (\<lambda>t. map (\<lambda>m. (module_line t m, module_file self dir t m))
                          (matching_modules self (get_load_modules t)))
               (filter translates tasks))"

definition expected_dumps :: "'a DLLDump_scheme \<Rightarrow> task list \<Rightarrow> (string \<times> file_obj) list" where
  "expected_dumps self tasks =
     (case dump_dir self of None \<Rightarrow> [] | Some dir \<Rightarrow> matching_dumps self dir tasks)"

text \<open>
  The dumps made before the loop over the processes stops, and the exception that stops
  it: the branch for a process whose record does not translate raises as soon as the
  process has a module.
\<close>

fun dumped_before_failure ::
  "'a DLLDump_scheme \<Rightarrow> string \<Rightarrow> task list \<Rightarrow> (string \<times> file_obj) list" where
  "dumped_before_failure self dir [] = []"
| "dumped_before_failure self dir (t # ts) =
     (if translates t then
        map (\<lambda>m. (module_line t m, module_file self dir t m))
          (matching_modules self (get_load_modules t))
        @ dumped_before_failure self dir ts
      else if get_load_modules t = [] then dumped_before_failure self dir ts
      else [])"

fun failure_of :: "task list \<Rightarrow> error option" where
  "failure_of [] = None"
| "failure_of (t # ts) =
     (if translates t \<or> get_load_modules t = [] then failure_of ts
      else Some (NameError ''proc''))"

section \<open>Names used in the statements about rewritten section headers\<close>







section \<open>Properties of the image reconstructor\<close>

lemma fd_calls_seek [simp]: "fd_calls (fd_seek sink n) = fd_calls sink @ [Seek n]"
  by (simp add: fd_seek_def)

lemma fd_calls_write [simp]: "fd_calls (fd_write sink d) = fd_calls sink @ [Write d]"
  by (simp add: fd_write_def)

lemma fd_name_seek [simp]: "fd_name (fd_seek sink n) = fd_name sink"
  by (simp add: fd_seek_def)

lemma fd_name_write [simp]: "fd_name (fd_write sink d) = fd_name sink"
  by (simp add: fd_write_def)

lemma write_sections_calls:
  "fd_calls (write_sections base ss sink) =
     fd_calls sink @ concat (map (section_calls base) ss)"
  by (induction ss arbitrary: sink)
     (simp_all add: section_calls_def readLen_def writeOffset_def Let_def)

lemma write_sections_name: "fd_name (write_sections base ss sink) = fd_name sink"
  by (induction ss arbitrary: sink) (simp_all add: Let_def)

lemma pe_profile_PEDump_init [simp]: "pe_profile (PEDump_init p a b f n) = p"
  by (simp add: PEDump_init_def split: option.splits)

text \<open>
  The scenario of the specification: the file holds the \<open>0x200\<close> header bytes, zeros up
  to \<open>0x400\<close>, and the \<open>0x600\<close> bytes of the section from there.
\<close>

lemma process_dump_scenario:
  "fd_calls (WritePEFile (PEDump_init scenario_profile None None None None)
       (open_file ''executable.exe'') pattern_as 4096)
     = [Seek 0, Write (replicate 512 77), Seek 1024, Write (replicate 1536 170)]
   \<and> file_content (WritePEFile (PEDump_init scenario_profile None None None None)
       (open_file ''executable.exe'') pattern_as 4096)
     = Some (replicate 512 77 @ replicate 512 0 @ replicate 1536 170)"
  by (simp add: WritePEFile_def Let_def scenario_profile_def pattern_as_def demo_section_def
        dword_def open_file_def file_content_def write_at_def)

text \<open>
  C1. When the header read is not empty, the calls \<^const>\<open>WritePEFile\<close> makes on the sink
  are a seek to 0 and a write of the bytes read with length \<open>min(1000000, SizeOfHeaders)\<close>,
  then for every section in order a seek to \<open>min(100000000, PointerToRawData)\<close> and a write
  of the bytes read with length \<open>min(10000000, SizeOfRawData)\<close>. Whenever a declared value
  exceeds its clamp constant, the read or seek is made with the clamp constant.
\<close>

theorem WritePEFile_clamps:
  "let dos = Object_IMAGE_DOS_HEADER (pe_profile self) img_base addr_space;
       base = obj_offset dos;
       nt = NTHeader dos;
       header = zread (obj_vm dos) base (headerLen nt)
   in (header \<noteq> [] \<longrightarrow>
         fd_calls (WritePEFile self sink addr_space img_base) =
           fd_calls sink @ [Seek 0, Write header]
             @ concat (map (section_calls base) (Sections nt)))
      \<and> headerLen nt = min 1000000 (SizeOfHeaders (OptionalHeader nt))
      \<and> (1000000 < SizeOfHeaders (OptionalHeader nt) \<longrightarrow>
           header = zread (obj_vm dos) base 1000000)
      \<and> (\<forall>s \<in> set (Sections nt).
           section_calls base s =
             [Seek (min 100000000 (val (PointerToRawData s))),
              Write (zread (obj_vm s) (val (VirtualAddress s) + base)
                       (min 10000000 (val (SizeOfRawData s))))] \<and>
           (10000000 < val (SizeOfRawData s) \<longrightarrow>
              section_calls base s ! 1 =
                Write (zread (obj_vm s) (val (VirtualAddress s) + base) 10000000)) \<and>
           (100000000 < val (PointerToRawData s) \<longrightarrow>
              section_calls base s ! 0 = Seek 100000000))"
  by (simp add: Let_def WritePEFile_def write_sections_calls headerLen_def readLen_def
        writeOffset_def section_calls_def)

theorem WritePEFile_clamps_witness:
  "zread zero_fill_as 4096 (headerLen (demo_nt zero_fill_as 4096 4294967295)) \<noteq> []
   \<and> fd_calls (WritePEFile (demo_pedump 4294967295) (open_file ''out.exe'') zero_fill_as 4096) =
       [Seek 0, Write (replicate 1000000 0),
        Seek 1024, Write (replicate 1536 0),
        Seek 100000000, Write (replicate 10000000 0)]"
  using WritePEFile_clamps [of "demo_pedump 4294967295" 4096 zero_fill_as
      "open_file ''out.exe''"]
  by (simp add: Let_def demo_pedump_def demo_profile_def demo_nt_def demo_sections_def
        demo_section_def dword_def zero_fill_as_def open_file_def headerLen_def
        section_calls_def readLen_def writeOffset_def)

text \<open>
  C2. If the header read yields no bytes, \<^const>\<open>WritePEFile\<close> returns the sink as it was:
  it makes no seek and no write, so the sink receives zero bytes.
\<close>

theorem WritePEFile_empty_header:
  assumes "zread (obj_vm (Object_IMAGE_DOS_HEADER (pe_profile self) img_base addr_space))
             (obj_offset (Object_IMAGE_DOS_HEADER (pe_profile self) img_base addr_space))
             (min 1000000 (SizeOfHeaders (OptionalHeader (NTHeader
                (Object_IMAGE_DOS_HEADER (pe_profile self) img_base addr_space))))) = []"
  shows "WritePEFile self sink addr_space img_base = sink
         \<and> bytes_written (fd_calls (WritePEFile self sink addr_space img_base))
             = bytes_written (fd_calls sink)"
  using assms by (simp add: WritePEFile_def Let_def)

theorem WritePEFile_empty_header_witness:
  "zread unmapped_as 4096 (min 1000000 512) = []
   \<and> WritePEFile (demo_pedump 512) (open_file ''out.exe'') unmapped_as 4096
       = open_file ''out.exe''
   \<and> bytes_written (fd_calls (WritePEFile (demo_pedump 512) (open_file ''out.exe'')
        unmapped_as 4096)) = 0"
  using WritePEFile_empty_header [of "demo_pedump 512" 4096 unmapped_as "open_file ''out.exe''"]
  by (simp add: demo_pedump_def demo_profile_def demo_nt_def unmapped_as_def open_file_def
        bytes_written_def)

text \<open>
  C4. The calls \<^const>\<open>WritePEFile\<close> appends to a sink depend only on the profile, the
  address space and the image base. Two sinks with the same history (two fresh files, say)
  therefore end with the same sequence of seeks and writes and the same content.
\<close>

theorem WritePEFile_deterministic:
  assumes "fd_calls sink1 = fd_calls sink2"
  shows "fd_calls (WritePEFile self sink1 addr_space img_base)
           = fd_calls (WritePEFile self sink2 addr_space img_base)
         \<and> file_content (WritePEFile self sink1 addr_space img_base)
           = file_content (WritePEFile self sink2 addr_space img_base)"
  using assms
  by (simp add: WritePEFile_def Let_def write_sections_calls file_content_def)

theorem WritePEFile_deterministic_witness:
  "fd_calls (open_file ''first.exe'') = fd_calls (open_file ''second.exe'')
   \<and> open_file ''first.exe'' \<noteq> open_file ''second.exe''
   \<and> fd_calls (WritePEFile (demo_pedump 512) (open_file ''first.exe'') zero_fill_as 4096)
       = fd_calls (WritePEFile (demo_pedump 512) (open_file ''second.exe'') zero_fill_as 4096)
   \<and> file_content (WritePEFile (demo_pedump 512) (open_file ''first.exe'') zero_fill_as 4096)
       = file_content (WritePEFile (demo_pedump 512) (open_file ''second.exe'') zero_fill_as 4096)"
  using WritePEFile_deterministic [of "open_file ''first.exe''" "open_file ''second.exe''"
      "demo_pedump 512" zero_fill_as 4096]
  by (simp add: open_file_def)

section \<open>Properties of the driver search\<close>

lemma append_spaces_map:
  "append_spaces spaces tasks = spaces @ map get_process_address_space tasks"
  by (induction tasks arbitrary: spaces) simp_all

lemma search_spaces_None:
  "search_spaces spaces b = None \<longleftrightarrow> (\<forall>a \<in> set spaces. \<not> is_valid_address a b)"
  by (induction spaces) simp_all

lemma search_spaces_Some:
  assumes "search_spaces spaces b = Some a"
  shows "\<exists>i<length spaces. spaces ! i = a \<and> is_valid_address a b
           \<and> (\<forall>j<i. \<not> is_valid_address (spaces ! j) b)"
  using assms
proof (induction spaces)
  case Nil
  then show ?case by simp
next
  case (Cons s rest)
  show ?case
  proof (cases "is_valid_address s b")
    case True
    with Cons.prems have "s = a" by simp
    with True show ?thesis by (intro exI [of _ 0]) simp
  next
    case False
    with Cons.prems have "search_spaces rest b = Some a" by simp
    from Cons.IH [OF this] obtain i where i: "i < length rest" "rest ! i = a"
      "is_valid_address a b" "\<forall>j<i. \<not> is_valid_address (rest ! j) b"
      by blast
    have "\<forall>j<Suc i. \<not> is_valid_address ((s # rest) ! j) b"
    proof (intro allI impI)
      fix j assume "j < Suc i"
      then show "\<not> is_valid_address ((s # rest) ! j) b"
        using False i(4) by (cases j) simp_all
    qed
    with i show ?thesis by (intro exI [of _ "Suc i"]) simp
  qed
qed

text \<open>
  C5. When \<^verbatim>\<open>self.processes\<close> is \<open>None\<close>, \<^const>\<open>find_space\<close> searches the list made of the
  kernel address space followed by every process's address space in enumeration order.
  It returns the first entry in which the image base is valid (every earlier entry
  reports it invalid), and \<open>None\<close> when no entry does. For candidates \<open>[K, P1, P2]\<close> of
  which only \<open>P2\<close> reports the base valid, it returns \<open>P2\<close>.
\<close>

theorem find_space_first_valid:
  assumes "processes self = None"
  shows "let cands = kernel_address_space self
                       # map get_process_address_space (filter_processes self)
         in address_spaces (snd (find_space self b)) = Some cands
            \<and> (\<exists>r. fst (find_space self b) = Inr r
                 \<and> (case r of
                       None \<Rightarrow> \<forall>a \<in> set cands. \<not> is_valid_address a b
                     | Some a \<Rightarrow>
                         \<exists>i<length cands. cands ! i = a \<and> is_valid_address a b
                           \<and> (\<forall>j<i. \<not> is_valid_address (cands ! j) b)))
            \<and> (\<forall>K P1 P2. cands = [K, P1, P2] \<and> \<not> is_valid_address K b
                   \<and> \<not> is_valid_address P1 b \<and> is_valid_address P2 b
                 \<longrightarrow> fst (find_space self b) = Inr (Some P2))"
proof -
  let ?cands = "kernel_address_space self
                  # map get_process_address_space (filter_processes self)"
  have fs: "find_space self b
              = (Inr (search_spaces ?cands b), self\<lparr>address_spaces := Some ?cands\<rparr>)"
    using assms by (simp add: find_space_def append_spaces_map)
  have shape: "case search_spaces ?cands b of
                 None \<Rightarrow> \<forall>a \<in> set ?cands. \<not> is_valid_address a b
               | Some a \<Rightarrow>
                   \<exists>i<length ?cands. ?cands ! i = a \<and> is_valid_address a b
                     \<and> (\<forall>j<i. \<not> is_valid_address (?cands ! j) b)"
  proof (cases "search_spaces ?cands b")
    case None
    then show ?thesis using search_spaces_None [of ?cands b] by simp
  next
    case (Some a)
    then show ?thesis using search_spaces_Some [OF Some] by simp
  qed
  have three: "\<forall>K P1 P2. ?cands = [K, P1, P2] \<and> \<not> is_valid_address K b
                   \<and> \<not> is_valid_address P1 b \<and> is_valid_address P2 b
                 \<longrightarrow> search_spaces ?cands b = Some P2"
  proof (intro allI impI)
    fix K P1 P2
    assume h: "?cands = [K, P1, P2] \<and> \<not> is_valid_address K b
                 \<and> \<not> is_valid_address P1 b \<and> is_valid_address P2 b"
    then have "search_spaces ?cands b = search_spaces [K, P1, P2] b" by simp
    also have "\<dots> = Some P2" using h by simp
    finally show "search_spaces ?cands b = Some P2" .
  qed
  show ?thesis
    unfolding Let_def fs using shape three by simp
qed

theorem find_space_first_valid_witness:
  "processes (demo_moddump [demo_task 4 ''System'' system_as [],
                            demo_task 612 ''csrss.exe'' gui_as []]) = None
   \<and> \<not> is_valid_address kernel_as 3212836864
   \<and> \<not> is_valid_address system_as 3212836864
   \<and> is_valid_address gui_as 3212836864
   \<and> fst (find_space (demo_moddump [demo_task 4 ''System'' system_as [],
                                     demo_task 612 ''csrss.exe'' gui_as []]) 3212836864)
       = Inr (Some gui_as)
   \<and> gui_as \<noteq> kernel_as \<and> gui_as \<noteq> system_as"
proof -
  let ?m = "demo_moddump [demo_task 4 ''System'' system_as [],
                          demo_task 612 ''csrss.exe'' gui_as []]"
  have p: "processes ?m = None" by (simp add: demo_moddump_def)
  have k: "\<not> is_valid_address kernel_as 3212836864" by (simp add: kernel_as_def)
  have s: "\<not> is_valid_address system_as 3212836864" by (simp add: system_as_def)
  have g: "is_valid_address gui_as 3212836864" by (simp add: gui_as_def)
  have c: "kernel_address_space ?m # map get_process_address_space (filter_processes ?m)
             = [kernel_as, system_as, gui_as]"
    by (simp add: demo_moddump_def demo_task_def)
  have "\<forall>K P1 P2.
          kernel_address_space ?m # map get_process_address_space (filter_processes ?m)
            = [K, P1, P2]
          \<and> \<not> is_valid_address K 3212836864 \<and> \<not> is_valid_address P1 3212836864
          \<and> is_valid_address P2 3212836864
          \<longrightarrow> fst (find_space ?m 3212836864) = Inr (Some P2)"
    using find_space_first_valid [OF p, of 3212836864] unfolding Let_def
    by (elim conjE) assumption
  from this [THEN spec, THEN spec, THEN spec, of kernel_as system_as gui_as]
  have "fst (find_space ?m 3212836864) = Inr (Some gui_as)"
    using c k s g by (elim impE) (intro conjI, assumption+)
  moreover have "gui_as \<noteq> kernel_as" using k g by auto
  moreover have "gui_as \<noteq> system_as" using s g by auto
  ultimately show ?thesis using p k s g by simp
qed

text \<open>
  \<^const>\<open>find_space\<close> stores the list in \<^verbatim>\<open>address_spaces\<close> but guards the construction
  with \<^verbatim>\<open>processes\<close>, which it never assigns. While \<^verbatim>\<open>processes\<close> is \<open>None\<close> every call
  builds the list again, whatever list an earlier call stored.
\<close>

lemma find_space_builds_again:
  assumes "processes self = None"
  shows "address_spaces (snd (find_space self b))
           = Some (kernel_address_space self
                     # map get_process_address_space (filter_processes self))"
    and "processes (snd (find_space self b)) = None"
  using assms by (simp_all add: find_space_def append_spaces_map)

text \<open>
  C6. The candidate list is meant to be built at most once per run and reused by every
  later call; the code builds it at every call. Here the first call is made when one
  process is enumerated and stores \<open>[kernel, system]\<close>. A second call on the resulting
  object, made when a second process has appeared, stores \<open>[kernel, system, gui]\<close> and
  answers from it: the list of the first call was not reused. With \<^verbatim>\<open>processes\<close> set
  instead, no list is ever built and the search iterates over \<open>None\<close>.
\<close>

theorem find_space_rebuilds_at_second_call:
  "address_spaces (snd (find_space (demo_moddump [demo_task 4 ''System'' system_as []])
       3212836864)) = Some [kernel_as, system_as]
   \<and> fst (find_space (demo_moddump [demo_task 4 ''System'' system_as []]) 3212836864)
       = Inr None
   \<and> address_spaces (snd (find_space
       ((snd (find_space (demo_moddump [demo_task 4 ''System'' system_as []]) 3212836864))
          \<lparr>filter_processes := [demo_task 4 ''System'' system_as [],
                                demo_task 612 ''csrss.exe'' gui_as []]\<rparr>)
       3212836864)) = Some [kernel_as, system_as, gui_as]
   \<and> fst (find_space
       ((snd (find_space (demo_moddump [demo_task 4 ''System'' system_as []]) 3212836864))
          \<lparr>filter_processes := [demo_task 4 ''System'' system_as [],
                                demo_task 612 ''csrss.exe'' gui_as []]\<rparr>)
       3212836864) = Inr (Some gui_as)
   \<and> fst (find_space
       ((demo_moddump [demo_task 4 ''System'' system_as []])
          \<lparr>processes := Some [demo_task 4 ''System'' system_as []]\<rparr>)
       3212836864) = Inl (TypeError ''NoneType object is not iterable'')"
  by (simp add: find_space_def demo_moddump_def demo_task_def kernel_as_def system_as_def
        gui_as_def)

section \<open>Properties of the PEDump object\<close>

text \<open>
  C10. A \<^verbatim>\<open>PEDump\<close> constructed with neither \<^verbatim>\<open>fd\<close> nor \<^verbatim>\<open>filename\<close> has no \<^verbatim>\<open>out_fd\<close>
  attribute (and no \<^verbatim>\<open>filename\<close> attribute, which is set on the same paths). Its \<^verbatim>\<open>render\<close>
  raises \<^verbatim>\<open>AttributeError\<close> at the first attribute it looks up and writes nothing. After
  construction \<^verbatim>\<open>out_fd\<close> exists exactly when an \<^verbatim>\<open>fd\<close> was given or a non-empty \<^verbatim>\<open>filename\<close>
  was.
\<close>

theorem PEDump_sink_only_when_supplied:
  "out_fd (PEDump_init profile addr_space img_base None None) = None
   \<and> PEDump_render (PEDump_init profile addr_space img_base None None) out
       = (Some (AttributeError ''filename''),
          PEDump_init profile addr_space img_base None None, out)
   \<and> ((out_fd (PEDump_init profile addr_space img_base sink name) = None)
        = (sink = None \<and> \<not> truthy_str name))
   \<and> ((filename (PEDump_init profile addr_space img_base sink name) = None)
        = (out_fd (PEDump_init profile addr_space img_base sink name) = None))"
  by (auto simp add: PEDump_init_def PEDump_render_def truthy_str_def split: option.splits)

theorem PEDump_sink_only_when_supplied_witness:
  "out_fd (PEDump_init (demo_profile 512) (Some zero_fill_as) (Some 4096) None None) = None
   \<and> PEDump_render (PEDump_init (demo_profile 512) (Some zero_fill_as) (Some 4096) None None) []
       = (Some (AttributeError ''filename''),
          PEDump_init (demo_profile 512) (Some zero_fill_as) (Some 4096) None None, [])
   \<and> out_fd (PEDump_init (demo_profile 512) (Some zero_fill_as) (Some 4096) None
        (Some ''out.exe'')) = Some (open_file ''out.exe'')
   \<and> out_fd (PEDump_init (demo_profile 512) (Some zero_fill_as) (Some 4096) None (Some ''''))
       = None"
  using PEDump_sink_only_when_supplied [of "demo_profile 512" "Some zero_fill_as" "Some 4096"
      "[]" None "Some ''out.exe''"]
    PEDump_sink_only_when_supplied [of "demo_profile 512" "Some zero_fill_as" "Some 4096"
      "[]" None "Some ''''"]
  by (simp add: PEDump_init_def truthy_str_def)

section \<open>Properties of the render loops\<close>

lemma check_dump_dir_None_dir:
  "check_dump_dir self os (dump_dir self) = None \<Longrightarrow> \<exists>dir. dump_dir self = Some dir"
  by (cases "dump_dir self") (simp_all add: check_dump_dir_def)

lemma ProcExeDump_tasks_bad_dir:
  assumes "check_dump_dir self os (dump_dir self) = Some e" and "fd self = None"
  shows "ProcExeDump_tasks self tasks out os =
           (if \<forall>t \<in> set tasks. \<not> as_nonzero (get_process_address_space t) then None else Some e,
            self,
            out @ replicate
                    (length (takeWhile (\<lambda>t. \<not> as_nonzero (get_process_address_space t)) tasks))
                    ''Can not get task address space - skipping.'',
            os)"
  using assms
proof (induction tasks arbitrary: out)
  case Nil
  then show ?case by simp
next
  case (Cons t rest)
  show ?case
  proof (cases "as_nonzero (get_process_address_space t)")
    case True
    then show ?thesis using Cons.prems by (simp add: Let_def)
  next
    case False
    then show ?thesis
      using Cons.IH [OF Cons.prems] by (simp add: Let_def replicate_app_Cons_same)
  qed
qed

text \<open>
  C8, as amended. \<^verbatim>\<open>ProcExeDump.render\<close> checks the dump directory only when it is about
  to create a file, that is with no caller-supplied \<^verbatim>\<open>fd\<close> and at a process whose address
  space is available. With a missing or non-directory dump directory and no \<^verbatim>\<open>fd\<close>, the
  run creates no file and reconstructs nothing: it reports the processes without an
  address space that come first as skipped, and raises the error at the first process
  that has one (it ends normally when there is none). \<^verbatim>\<open>DLLDump.render\<close> and
  \<^verbatim>\<open>ModDump.render\<close> check the directory first and raise before any target is looked at.
\<close>

theorem dump_dir_checked_before_any_file:
  "(check_dump_dir self os (dump_dir self) = Some e \<and> fd self = None \<longrightarrow>
      ProcExeDump_render self out os =
        (if \<forall>t \<in> set (filter_processes self). \<not> as_nonzero (get_process_address_space t)
         then None else Some e,
         self,
         out @ replicate
                 (length (takeWhile (\<lambda>t. \<not> as_nonzero (get_process_address_space t))
                            (filter_processes self)))
                 ''Can not get task address space - skipping.'',
         os))
   \<and> (check_dump_dir dll os (dump_dir dll) = Some e \<longrightarrow>
        DLLDump_render dll out os = (Some e, out, os))
   \<and> (check_dump_dir moddump os (dump_dir moddump) = Some e \<longrightarrow>
        ModDump_render moddump out os = (Some e, moddump, out, os))"
  by (simp add: ProcExeDump_render_def ProcExeDump_tasks_bad_dir DLLDump_render_def
        ModDump_render_def)

theorem dump_dir_checked_before_any_file_witness:
  "check_dump_dir (demo_procexedump None None
        [demo_task 4 ''System'' none_as [], demo_task 612 ''csrss.exe'' gui_as []])
      demo_os None = Some (PluginError ''Please specify a dump directory.'')
   \<and> ProcExeDump_render (demo_procexedump None None
        [demo_task 4 ''System'' none_as [], demo_task 612 ''csrss.exe'' gui_as []]) [] demo_os
      = (Some (PluginError ''Please specify a dump directory.''),
         demo_procexedump None None
           [demo_task 4 ''System'' none_as [], demo_task 612 ''csrss.exe'' gui_as []],
         [''Can not get task address space - skipping.''],
         demo_os)
   \<and> DLLDump_render ((demo_dlldump [demo_task 612 ''csrss.exe'' gui_as demo_modules])
        \<lparr>dump_dir := Some ''/missing''\<rparr>) [] demo_os
      = (Some (PluginError ''/missing is not a directory''), [], demo_os)
   \<and> ModDump_render ((demo_moddump [demo_task 612 ''csrss.exe'' gui_as []])
        \<lparr>dump_dir := Some ''/missing''\<rparr>) [] demo_os
      = (Some (PluginError ''/missing is not a directory''),
         (demo_moddump [demo_task 612 ''csrss.exe'' gui_as []])\<lparr>dump_dir := Some ''/missing''\<rparr>,
         [], demo_os)"
  using dump_dir_checked_before_any_file
    [of "demo_procexedump None None
           [demo_task 4 ''System'' none_as [], demo_task 612 ''csrss.exe'' gui_as []]"
        demo_os "PluginError ''Please specify a dump directory.''" "[]"
        "(demo_dlldump [demo_task 612 ''csrss.exe'' gui_as demo_modules])
           \<lparr>dump_dir := Some ''/missing''\<rparr>"
        "(demo_moddump [demo_task 612 ''csrss.exe'' gui_as []])\<lparr>dump_dir := Some ''/missing''\<rparr>"]
    dump_dir_checked_before_any_file
    [of "demo_procexedump None None []"
        demo_os "PluginError ''/missing is not a directory''" "[]"
        "(demo_dlldump [demo_task 612 ''csrss.exe'' gui_as demo_modules])
           \<lparr>dump_dir := Some ''/missing''\<rparr>"
        "(demo_moddump [demo_task 612 ''csrss.exe'' gui_as []])\<lparr>dump_dir := Some ''/missing''\<rparr>"]
  by (simp add: demo_procexedump_def ProcExeDump_init_def truthy_str_def check_dump_dir_def
        demo_task_def none_as_def unmapped_as_def gui_as_def demo_os_def demo_dlldump_def
        demo_moddump_def)

text \<open>
  C8 as stated fails on \<^verbatim>\<open>ProcExeDump.render\<close>: with a caller-supplied \<^verbatim>\<open>fd\<close> the dump
  directory is never checked. Here no dump directory is set, the check would raise, and
  the run ends without an exception after writing the image into the supplied sink.
\<close>

theorem ProcExeDump_render_unset_dir_with_fd:
  "check_dump_dir
      (demo_procexedump None (Some (open_file ''sink''))
         [demo_task 612 ''csrss.exe'' zero_fill_as []])
      demo_os
      (dump_dir (demo_procexedump None (Some (open_file ''sink''))
         [demo_task 612 ''csrss.exe'' zero_fill_as []]))
     = Some (PluginError ''Please specify a dump directory.'')
   \<and> fst (ProcExeDump_render
        (demo_procexedump None (Some (open_file ''sink''))
           [demo_task 612 ''csrss.exe'' zero_fill_as []]) [] demo_os) = None
   \<and> map_option fd_calls (fd (fst (snd (ProcExeDump_render
        (demo_procexedump None (Some (open_file ''sink''))
           [demo_task 612 ''csrss.exe'' zero_fill_as []]) [] demo_os))))
     = Some [Seek 0, Write (replicate 512 0),
             Seek 1024, Write (replicate 1536 0),
             Seek 100000000, Write (replicate 10000000 0)]"
  by (simp add: demo_procexedump_def ProcExeDump_init_def truthy_str_def check_dump_dir_def
        ProcExeDump_render_def Let_def demo_task_def zero_fill_as_def demo_os_def
        WritePEFile_def demo_profile_def demo_nt_def demo_sections_def demo_section_def
        dword_def open_file_def)


lemma DLLDump_modules_translating:
  assumes "translates t" and "dump_dir self = Some dir"
  shows "DLLDump_modules self t mods out os =
           (None,
            out @ map (module_line t) (matching_modules self mods),
            os\<lparr>os_files := os_files os
                     @ map (module_file self dir t) (matching_modules self mods)\<rparr>)"
  using assms
proof (induction mods arbitrary: out os)
  case Nil
  then show ?case by (simp add: matching_modules_def)
next
  case (Cons m rest)
  have tr: "truthy_int (vtop (get_process_address_space t) (obj_offset t))"
    using Cons.prems(1) by (simp add: translates_def)
  show ?case
  proof (cases "regex self (BaseDllName m)")
    case False
    then show ?thesis
      using tr Cons.IH [OF Cons.prems, of out os] by (simp add: matching_modules_def)
  next
    case True
    have step: "DLLDump_modules self t (m # rest) out os
                  = DLLDump_modules self t rest (out @ [module_line t m])
                      (os\<lparr>os_files := os_files os @ [module_file self dir t m]\<rparr>)"
      using True tr Cons.prems(2)
      by (simp add: Let_def module_line_def module_file_def module_dump_file_def)
    show ?thesis
      unfolding step
      using True
        Cons.IH [OF Cons.prems, of "out @ [module_line t m]"
          "os\<lparr>os_files := os_files os @ [module_file self dir t m]\<rparr>"]
      by (simp add: matching_modules_def)
  qed
qed

lemma DLLDump_modules_not_translating:
  assumes "\<not> translates t"
  shows "DLLDump_modules self t mods out os =
           (if mods = [] then None else Some (NameError ''proc''), out, os)"
  using assms by (cases mods) (simp_all add: translates_def)

lemma DLLDump_modules_pass_over:
  assumes "translates t"
  shows "DLLDump_modules self t mods out os
           = DLLDump_modules self t (matching_modules self mods) out os"
  using assms
  by (induction mods arbitrary: out os)
     (simp_all add: Let_def translates_def matching_modules_def split: option.splits)

lemma map_fst_dump:
  "map fst (map (\<lambda>m. (module_line t m, module_file self dir t m)) ms) = map (module_line t) ms"
  by (induction ms) simp_all

lemma map_snd_dump:
  "map snd (map (\<lambda>m. (module_line t m, module_file self dir t m)) ms)
     = map (module_file self dir t) ms"
  by (induction ms) simp_all

lemma DLLDump_tasks_eq:
  assumes "dump_dir self = Some dir"
  shows "DLLDump_tasks self tasks out os =
           (failure_of tasks,
            out @ map fst (dumped_before_failure self dir tasks),
            os\<lparr>os_files := os_files os @ map snd (dumped_before_failure self dir tasks)\<rparr>)"
proof (induction tasks arbitrary: out os)
  case Nil
  show ?case by simp
next
  case (Cons t ts)
  show ?case
  proof (cases "translates t")
    case True
    show ?thesis
      by (simp add: True DLLDump_modules_translating [OF True assms] Cons.IH
            map_fst_dump map_snd_dump)
  next
    case False
    show ?thesis
      by (simp add: False DLLDump_modules_not_translating [OF False] Cons.IH)
  qed
qed

lemma dumped_before_failure_prefix:
  "\<exists>rest. matching_dumps self dir tasks = dumped_before_failure self dir tasks @ rest"
proof (induction tasks)
  case Nil
  show ?case by (simp add: matching_dumps_def)
next
  case (Cons t ts)
  then obtain rest where r: "matching_dumps self dir ts = dumped_before_failure self dir ts @ rest"
    by blast
  show ?case
  proof (cases "translates t")
    case True
    have "matching_dumps self dir (t # ts)
            = dumped_before_failure self dir (t # ts) @ rest"
      using True r by (simp add: matching_dumps_def)
    then show ?thesis by (rule exI)
  next
    case False
    have m: "matching_dumps self dir (t # ts) = matching_dumps self dir ts"
      using False by (simp add: matching_dumps_def)
    show ?thesis
    proof (cases "get_load_modules t = []")
      case True
      have "matching_dumps self dir (t # ts)
              = dumped_before_failure self dir (t # ts) @ rest"
        using False True r m by simp
      then show ?thesis by (rule exI)
    next
      case nonempty: False
      have "matching_dumps self dir (t # ts)
              = dumped_before_failure self dir (t # ts) @ matching_dumps self dir ts"
        using False nonempty m by simp
      then show ?thesis by (rule exI)
    qed
  qed
qed

lemma dumped_all_without_failure:
  "failure_of tasks = None \<Longrightarrow>
   dumped_before_failure self dir tasks = matching_dumps self dir tasks"
proof (induction tasks)
  case Nil
  show ?case by (simp add: matching_dumps_def)
next
  case (Cons t ts)
  show ?case
  proof (cases "translates t")
    case True
    then show ?thesis using Cons by (simp add: matching_dumps_def)
  next
    case False
    then show ?thesis using Cons by (simp add: matching_dumps_def split: if_splits)
  qed
qed

lemma no_failure_when_all_translate:
  "\<forall>t \<in> set tasks. translates t \<Longrightarrow> failure_of tasks = None"
  by (induction tasks) simp_all


text \<open>
  C7. Whatever the run of \<^verbatim>\<open>DLLDump.render\<close> (to its end or to an exception), the lines it
  writes and the files it creates are those of an initial part of the dumps of the
  matching modules, in order: each line and each file belongs to a module whose name
  matches the pattern, so a module whose name does not match gets no file and no line.
  A run that ends without an exception has dumped every matching module of the processes
  that translate, which is the case whenever the dump directory is in order and every
  process translates. Within a process that translates, the modules that do not match
  are passed over: the loop over its modules does what it does on the matching modules
  alone.
\<close>

theorem DLLDump_render_dumps_only_matching:
  "(\<exists>dumped rest.
       expected_dumps self (filter_processes self) = dumped @ rest
       \<and> fst (snd (DLLDump_render self out os)) = out @ map fst dumped
       \<and> snd (snd (DLLDump_render self out os)) = os\<lparr>os_files := os_files os @ map snd dumped\<rparr>
       \<and> (fst (DLLDump_render self out os) = None \<longrightarrow> rest = [])
       \<and> (check_dump_dir self os (dump_dir self) = None
            \<and> (\<forall>t \<in> set (filter_processes self). translates t)
           \<longrightarrow> fst (DLLDump_render self out os) = None))
   \<and> (translates t \<longrightarrow>
        DLLDump_modules self t mods out os
          = DLLDump_modules self t (matching_modules self mods) out os)
   \<and> (\<forall>m \<in> set (matching_modules self mods). regex self (BaseDllName m))"
proof -
  have run: "\<exists>dumped rest.
       expected_dumps self (filter_processes self) = dumped @ rest
       \<and> fst (snd (DLLDump_render self out os)) = out @ map fst dumped
       \<and> snd (snd (DLLDump_render self out os)) = os\<lparr>os_files := os_files os @ map snd dumped\<rparr>
       \<and> (fst (DLLDump_render self out os) = None \<longrightarrow> rest = [])
       \<and> (check_dump_dir self os (dump_dir self) = None
            \<and> (\<forall>t \<in> set (filter_processes self). translates t)
           \<longrightarrow> fst (DLLDump_render self out os) = None)"
  proof (cases "check_dump_dir self os (dump_dir self)")
    case (Some e)
    have r: "DLLDump_render self out os = (Some e, out, os)"
      by (simp add: DLLDump_render_def Some)
    show ?thesis
    proof (rule exI [of _ "[]"], rule exI [of _ "expected_dumps self (filter_processes self)"],
        intro conjI)
      show "expected_dumps self (filter_processes self)
              = [] @ expected_dumps self (filter_processes self)"
        by simp
      show "fst (snd (DLLDump_render self out os)) = out @ map fst []"
        unfolding r by simp
      show "snd (snd (DLLDump_render self out os)) = os\<lparr>os_files := os_files os @ map snd []\<rparr>"
        unfolding r by simp
      show "fst (DLLDump_render self out os) = None
              \<longrightarrow> expected_dumps self (filter_processes self) = []"
        unfolding r by simp
      show "check_dump_dir self os (dump_dir self) = None
              \<and> (\<forall>t \<in> set (filter_processes self). translates t)
            \<longrightarrow> fst (DLLDump_render self out os) = None"
        using Some by simp
    qed
  next
    case None
    from check_dump_dir_None_dir [OF None] obtain dir where dir: "dump_dir self = Some dir" ..
    let ?D = "dumped_before_failure self dir (filter_processes self)"
    have r: "DLLDump_render self out os
               = (failure_of (filter_processes self), out @ map fst ?D,
                  os\<lparr>os_files := os_files os @ map snd ?D\<rparr>)"
      by (simp add: DLLDump_render_def None DLLDump_tasks_eq [OF dir])
    have e: "expected_dumps self (filter_processes self)
               = matching_dumps self dir (filter_processes self)"
      by (simp add: expected_dumps_def dir)
    from dumped_before_failure_prefix [of self dir "filter_processes self"]
    obtain rest where rest: "matching_dumps self dir (filter_processes self) = ?D @ rest" ..
    show ?thesis
    proof (rule exI [of _ ?D], rule exI [of _ rest], intro conjI)
      show "expected_dumps self (filter_processes self) = ?D @ rest"
        unfolding e by (rule rest)
      show "fst (snd (DLLDump_render self out os)) = out @ map fst ?D"
        unfolding r by simp
      show "snd (snd (DLLDump_render self out os)) = os\<lparr>os_files := os_files os @ map snd ?D\<rparr>"
        unfolding r by simp
      show "fst (DLLDump_render self out os) = None \<longrightarrow> rest = []"
      proof
        assume "fst (DLLDump_render self out os) = None"
        then have "failure_of (filter_processes self) = None" unfolding r by simp
        from dumped_all_without_failure [OF this, of self dir] rest
        show "rest = []" by simp
      qed
      show "check_dump_dir self os (dump_dir self) = None
              \<and> (\<forall>t \<in> set (filter_processes self). translates t)
            \<longrightarrow> fst (DLLDump_render self out os) = None"
        unfolding r using no_failure_when_all_translate [of "filter_processes self"] by simp
    qed
  qed
  have pass: "translates t \<longrightarrow>
        DLLDump_modules self t mods out os
          = DLLDump_modules self t (matching_modules self mods) out os"
    using DLLDump_modules_pass_over [of t self mods out os] by (rule impI)
  have match: "\<forall>m \<in> set (matching_modules self mods). regex self (BaseDllName m)"
    by (simp add: matching_modules_def)
  from run pass match show ?thesis by (intro conjI)
qed

theorem DLLDump_render_dumps_only_matching_witness:
  "translates (demo_task 612 ''csrss.exe'' gui_as demo_modules)
   \<and> check_dump_dir (demo_dlldump [demo_task 612 ''csrss.exe'' gui_as demo_modules]) demo_os
        (dump_dir (demo_dlldump [demo_task 612 ''csrss.exe'' gui_as demo_modules])) = None
   \<and> matching_modules (demo_dlldump [demo_task 612 ''csrss.exe'' gui_as demo_modules])
        demo_modules = [\<lparr>BaseDllName = ''evil.dll'', DllBase = 268435456\<rparr>]
   \<and> DLLDump_modules (demo_dlldump [demo_task 612 ''csrss.exe'' gui_as demo_modules])
        (demo_task 612 ''csrss.exe'' gui_as demo_modules) demo_modules [] demo_os
       = DLLDump_modules (demo_dlldump [demo_task 612 ''csrss.exe'' gui_as demo_modules])
           (demo_task 612 ''csrss.exe'' gui_as demo_modules)
           [\<lparr>BaseDllName = ''evil.dll'', DllBase = 268435456\<rparr>] [] demo_os
   \<and> DLLDump_render (demo_dlldump [demo_task 612 ''csrss.exe'' gui_as demo_modules]) [] demo_os
       = (None,
          [module_line (demo_task 612 ''csrss.exe'' gui_as demo_modules)
             \<lparr>BaseDllName = ''evil.dll'', DllBase = 268435456\<rparr>],
          demo_os\<lparr>os_files :=
            [module_file (demo_dlldump [demo_task 612 ''csrss.exe'' gui_as demo_modules])
               ''/dumps'' (demo_task 612 ''csrss.exe'' gui_as demo_modules)
               \<lparr>BaseDllName = ''evil.dll'', DllBase = 268435456\<rparr>]\<rparr>)"
proof -
  let ?t = "demo_task 612 ''csrss.exe'' gui_as demo_modules"
  let ?d = "demo_dlldump [?t]"
  let ?evil = "\<lparr>BaseDllName = ''evil.dll'', DllBase = 268435456\<rparr>"
  let ?R = "DLLDump_render ?d [] demo_os"
  have tr: "translates ?t"
    by (simp add: demo_task_def translates_def gui_as_def truthy_int_def)
  have fp: "filter_processes ?d = [?t]" by (simp add: demo_dlldump_def)
  have chk: "check_dump_dir ?d demo_os (dump_dir ?d) = None"
    by (simp add: demo_dlldump_def check_dump_dir_def demo_os_def)
  have mm: "matching_modules ?d demo_modules = [?evil]"
    by (simp add: matching_modules_def demo_dlldump_def demo_modules_def)
  have glm: "get_load_modules ?t = demo_modules" by (simp add: demo_task_def)
  have ex: "expected_dumps ?d [?t] = [(module_line ?t ?evil, module_file ?d ''/dumps'' ?t ?evil)]"
  proof -
    have dd: "dump_dir ?d = Some ''/dumps''" by (simp add: demo_dlldump_def)
    show ?thesis
      using tr mm glm by (simp add: expected_dumps_def dd matching_dumps_def)
  qed
  note inst = DLLDump_render_dumps_only_matching [of ?d "[]" demo_os ?t demo_modules]
  from inst have pass: "translates ?t \<longrightarrow>
      DLLDump_modules ?d ?t demo_modules [] demo_os
        = DLLDump_modules ?d ?t (matching_modules ?d demo_modules) [] demo_os"
    by (rule conjunct2 [THEN conjunct1])
  from inst have "\<exists>dumped rest.
      expected_dumps ?d (filter_processes ?d) = dumped @ rest
      \<and> fst (snd ?R) = [] @ map fst dumped
      \<and> snd (snd ?R) = demo_os\<lparr>os_files := os_files demo_os @ map snd dumped\<rparr>
      \<and> (fst ?R = None \<longrightarrow> rest = [])
      \<and> (check_dump_dir ?d demo_os (dump_dir ?d) = None
           \<and> (\<forall>t \<in> set (filter_processes ?d). translates t) \<longrightarrow> fst ?R = None)"
    by (rule conjunct1)
  then obtain dumped where "\<exists>rest.
      expected_dumps ?d (filter_processes ?d) = dumped @ rest
      \<and> fst (snd ?R) = [] @ map fst dumped
      \<and> snd (snd ?R) = demo_os\<lparr>os_files := os_files demo_os @ map snd dumped\<rparr>
      \<and> (fst ?R = None \<longrightarrow> rest = [])
      \<and> (check_dump_dir ?d demo_os (dump_dir ?d) = None
           \<and> (\<forall>t \<in> set (filter_processes ?d). translates t) \<longrightarrow> fst ?R = None)" ..
  then obtain rest where all:
     "expected_dumps ?d (filter_processes ?d) = dumped @ rest
      \<and> fst (snd ?R) = [] @ map fst dumped
      \<and> snd (snd ?R) = demo_os\<lparr>os_files := os_files demo_os @ map snd dumped\<rparr>
      \<and> (fst ?R = None \<longrightarrow> rest = [])
      \<and> (check_dump_dir ?d demo_os (dump_dir ?d) = None
           \<and> (\<forall>t \<in> set (filter_processes ?d). translates t) \<longrightarrow> fst ?R = None)" ..
  have a: "expected_dumps ?d (filter_processes ?d) = dumped @ rest"
    using all by (rule conjunct1)
  have b: "fst (snd ?R) = [] @ map fst dumped"
    using all [THEN conjunct2] by (rule conjunct1)
  have c: "snd (snd ?R) = demo_os\<lparr>os_files := os_files demo_os @ map snd dumped\<rparr>"
    using all [THEN conjunct2, THEN conjunct2] by (rule conjunct1)
  have d: "fst ?R = None \<longrightarrow> rest = []"
    using all [THEN conjunct2, THEN conjunct2, THEN conjunct2] by (rule conjunct1)
  have e: "check_dump_dir ?d demo_os (dump_dir ?d) = None
              \<and> (\<forall>t \<in> set (filter_processes ?d). translates t) \<longrightarrow> fst ?R = None"
    using all [THEN conjunct2, THEN conjunct2, THEN conjunct2] by (rule conjunct2)
  have alltr: "\<forall>t \<in> set (filter_processes ?d). translates t"
    unfolding fp using tr by simp
  have none: "fst ?R = None" using e chk alltr by (elim impE) (intro conjI, assumption+)
  then have "rest = []" using d by simp
  then have dumped: "dumped = [(module_line ?t ?evil, module_file ?d ''/dumps'' ?t ?evil)]"
    using a ex fp by simp
  have os0: "os_files demo_os = []" by (simp add: demo_os_def)
  have "?R = (fst ?R, fst (snd ?R), snd (snd ?R))" by simp
  then have R: "?R = (None, [module_line ?t ?evil],
                      demo_os\<lparr>os_files := [module_file ?d ''/dumps'' ?t ?evil]\<rparr>)"
    unfolding none b c dumped os0 by simp
  have same: "DLLDump_modules ?d ?t demo_modules [] demo_os
                = DLLDump_modules ?d ?t [?evil] [] demo_os"
    using pass tr mm by simp
  from tr chk mm same R show ?thesis by (intro conjI)
qed

text \<open>
  The branch for a process whose record does not translate raises \<^verbatim>\<open>NameError\<close> at the
  first module of the process, whether its name matches or not: the name \<^verbatim>\<open>proc\<close> it
  formats is not bound. Nothing is written and no file is created there.
\<close>

lemma DLLDump_render_untranslated_process:
  "\<not> translates (demo_task 1234 ''malware.exe'' unmapped_as
         [\<lparr>BaseDllName = ''ntdll.dll'', DllBase = 2089811968\<rparr>])
   \<and> DLLDump_render
        (demo_dlldump [demo_task 1234 ''malware.exe'' unmapped_as
           [\<lparr>BaseDllName = ''ntdll.dll'', DllBase = 2089811968\<rparr>]]) [] demo_os
      = (Some (NameError ''proc''), [], demo_os)
   \<and> DLLDump_render
        (demo_dlldump [demo_task 1234 ''malware.exe'' unmapped_as
           [\<lparr>BaseDllName = ''evil.dll'', DllBase = 268435456\<rparr>]]) [] demo_os
      = (Some (NameError ''proc''), [], demo_os)"
  by (simp add: demo_dlldump_def demo_task_def unmapped_as_def translates_def truthy_int_def
        DLLDump_render_def check_dump_dir_def demo_os_def)

section \<open>Properties of the header rewriting\<close>

lemma struct_pack_length: "struct_pack f v = Inr bs \<Longrightarrow> length bs = fmt_width f"
  by (auto simp add: struct_pack_def Let_def split: if_splits byte_order.splits)

lemma splice_length:
  assumes "s + n \<le> length h" and "length nv = n"
  shows "length (take s h @ nv @ drop (s + n) h) = length h"
  using assms by simp

lemma splice_nth_outside:
  assumes "length nv = n" and "i < length h" and "i < s \<or> s + n \<le> i"
  shows "(take s h @ nv @ drop (s + n) h) ! i = h ! i"
proof (cases "i < s")
  case True
  then show ?thesis using assms by (simp add: nth_append)
next
  case False
  with assms have ge: "s + n \<le> i" by simp
  then have "s \<le> length h" using assms by simp
  then have l: "length (take s h) = s" by simp
  have a: "\<not> i < length (take s h)" using False l by simp
  have b: "\<not> i - s < length nv" using ge assms(1) by linarith
  have "(take s h @ nv @ drop (s + n) h) ! i = (nv @ drop (s + n) h) ! (i - s)"
    using a l by (simp only: nth_append if_False)
  also have "\<dots> = drop (s + n) h ! (i - s - length nv)"
    using b by (simp only: nth_append if_False)
  also have "\<dots> = h ! (s + n + (i - s - length nv))"
    using ge assms(2) by (intro nth_drop) simp
  also have "s + n + (i - s - length nv) = i"
    using ge assms(1) by linarith
  finally show ?thesis .
qed



lemma replace_header_field_nat:
  assumes "obj_offset sect \<le> obj_offset item" and "0 \<le> item_size item"
  shows "replace_header_field sect header item v =
           (case struct_pack (format_string item) v of
              Inl e \<Rightarrow> Inl e
            | Inr newval \<Rightarrow>
                Inr (take (nat (obj_offset item - obj_offset sect)) header @ newval
                     @ drop (nat (obj_offset item - obj_offset sect) + nat (item_size item))
                         header))"
  using assms
  by (simp add: replace_header_field_def Let_def slice_to_def slice_from_def nat_add_distrib
        split: sum.splits)

text \<open>
  C9. When \<^const>\<open>replace_header_field\<close> returns (the value fits the field's format) for a
  field that starts inside the block, the result is the bytes of the block before the
  field, the packed value, and the bytes of the block after the field. When the packed
  value has the field's width, every byte of the block outside the field's range is
  where it was and, the field lying inside the block, the result is as long as the block.
\<close>

theorem replace_header_field_splices:
  assumes "replace_header_field sect header item v = Inr result"
    and "obj_offset sect \<le> obj_offset item" and "0 \<le> item_size item"
  shows "\<exists>newval.
           struct_pack (format_string item) v = Inr newval
           \<and> length newval = fmt_width (format_string item)
           \<and> result = take (nat (obj_offset item - obj_offset sect)) header @ newval
                        @ drop (nat (obj_offset item - obj_offset sect) + nat (item_size item))
                            header
           \<and> (int (length newval) = item_size item \<longrightarrow>
                (\<forall>i<length header.
                    int i < obj_offset item - obj_offset sect
                    \<or> obj_offset item - obj_offset sect + item_size item \<le> int i
                    \<longrightarrow> result ! i = header ! i)
                \<and> (obj_offset item + item_size item \<le> obj_offset sect + int (length header)
                     \<longrightarrow> length result = length header))"
proof -
  let ?s = "nat (obj_offset item - obj_offset sect)"
  let ?n = "nat (item_size item)"
  from assms(1) replace_header_field_nat [OF assms(2,3), of header v]
  obtain newval where nv: "struct_pack (format_string item) v = Inr newval"
    and res: "result = take ?s header @ newval @ drop (?s + ?n) header"
    by (auto split: sum.splits)
  have frame: "result ! i = header ! i"
    if w: "int (length newval) = item_size item" and i: "i < length header"
      and o: "int i < obj_offset item - obj_offset sect
              \<or> obj_offset item - obj_offset sect + item_size item \<le> int i" for i
  proof -
    have a: "length newval = ?n" using w by simp
    have b: "i < ?s \<or> ?s + ?n \<le> i" using o assms(2,3) by linarith
    show ?thesis unfolding res using a i b by (rule splice_nth_outside)
  qed
  have len: "length result = length header"
    if w: "int (length newval) = item_size item"
      and b: "obj_offset item + item_size item \<le> obj_offset sect + int (length header)"
  proof -
    have "length newval = ?n" using w by simp
    moreover have "?s + ?n \<le> length header" using b assms(2,3) by linarith
    ultimately show ?thesis unfolding res by (simp add: splice_length)
  qed
  show ?thesis
    using nv struct_pack_length [OF nv] res frame len by blast
qed

lemma struct_pack_dword:
  "0 \<le> v \<Longrightarrow> v < 4294967296 \<Longrightarrow>
   struct_pack (Format Little_endian False 4) v =
     Inr [word_of_int v, word_of_int (v div 256), word_of_int (v div 65536),
          word_of_int (v div 16777216)]"
  by (simp add: struct_pack_def Let_def upt_rec)

theorem replace_header_field_splices_witness:
  "replace_header_field (demo_section zero_fill_as 100 0 0 0 0)
       [1, 2, 3, 4, 5, 6, 7, 8, 9, 10] (dword zero_fill_as 104 0) 287454020
     = Inr [1, 2, 3, 4, 68, 51, 34, 17, 9, 10]
   \<and> struct_pack (Format Little_endian False 4) 287454020 = Inr [68, 51, 34, 17]
   \<and> obj_offset (demo_section zero_fill_as 100 0 0 0 0)
       \<le> obj_offset (dword zero_fill_as 104 0)
   \<and> item_size (dword zero_fill_as 104 0) = 4
   \<and> obj_offset (dword zero_fill_as 104 0) + item_size (dword zero_fill_as 104 0)
       \<le> obj_offset (demo_section zero_fill_as 100 0 0 0 0)
           + int (length [1, 2, 3, 4, 5, 6, 7, 8, 9, 10 :: byte])"
proof -
  have r: "replace_header_field (demo_section zero_fill_as 100 0 0 0 0)
       [1, 2, 3, 4, 5, 6, 7, 8, 9, 10] (dword zero_fill_as 104 0) 287454020
     = Inr [1, 2, 3, 4, 68, 51, 34, 17, 9, 10]"
    by (simp add: replace_header_field_def Let_def demo_section_def dword_def
          struct_pack_dword slice_to_def slice_from_def)
  have a: "obj_offset (demo_section zero_fill_as 100 0 0 0 0)
             \<le> obj_offset (dword zero_fill_as 104 0)"
    by (simp add: demo_section_def dword_def)
  have b: "0 \<le> item_size (dword zero_fill_as 104 0)"
    by (simp add: dword_def)
  from replace_header_field_splices [OF r a b]
  obtain newval where nv:
    "struct_pack (format_string (dword zero_fill_as 104 0)) 287454020 = Inr newval"
    "length newval = fmt_width (format_string (dword zero_fill_as 104 0))"
    by blast
  have pk: "struct_pack (Format Little_endian False 4) 287454020 = Inr [68, 51, 34, 17]"
    by (simp add: struct_pack_dword)
  show ?thesis using r a pk nv by (simp add: dword_def demo_section_def)
qed












end
